theory Spec2Isabelle
  imports Complex_Main
begin

text \<open>
  The routes of \<^verbatim>\<open>server.js\<close> for students, teachers, classes and announcements,
  as functions from a request and the store to a response and the new store, with the
  helper that mails an announcement to the teachers. The properties proved are about
  required fields, partial updates, the rule of one class teacher per class, the class
  initializer, payments, deletion and the notification of teachers.
\<close>

section \<open>Request bodies\<close>

text \<open>
  \<^verbatim>\<open>express.json()\<close> parses the request body into an object, and every handler of
  \<^verbatim>\<open>server.js\<close> destructures the fields it needs from it. A field holds a JSON
  primitive; a key that is absent destructures to \<^verbatim>\<open>undefined\<close>. Numbers are
  rationals (every JSON number literal is one; the rounding to a double is not
  modelled). Objects and arrays as field values are outside the model.
\<close>

datatype jv = JUndefined | JNull | JBool bool | JNum rat | JStr string

type_synonym body = "string \<rightharpoonup> jv"

definition bodyField :: "body \<Rightarrow> string \<Rightarrow> jv" where
  "bodyField b k = (case b k of None \<Rightarrow> JUndefined | Some v \<Rightarrow> v)"

text \<open>The test \<^verbatim>\<open>!v\<close> of JavaScript: true of the falsy values.\<close>

fun falsy :: "jv \<Rightarrow> bool" where
  "falsy JUndefined = True"
| "falsy JNull = True"
| "falsy (JBool b) = (\<not> b)"
| "falsy (JNum n) = (n = 0)"
| "falsy (JStr s) = (s = [])"

section \<open>Schemas (server.js, lines 38 to 75)\<close>

text \<open>
  One record per schema, each path with the type the schema declares for it. The
  \<^verbatim>\<open>class\<close> path of a student is named \<open>sclass\<close>, as the handlers name their
  variable, and the \<^verbatim>\<open>text\<close> path of an announcement \<open>atext\<close>. The store-assigned
  \<^verbatim>\<open>_id\<close> of a document is kept beside its fields (see \<open>collection\<close>); the
  identifiers of payment subdocuments are not modelled.
\<close>

record payment =
  amount :: rat
  date :: string

record fees =
  due :: rat
  payments :: "payment list"

record student =
  name :: string
  age :: rat
  sclass :: string
  fees :: fees

record teacher =
  name :: string
  subject :: string
  role :: string
  classTeacherClass :: string
  email :: string

record classdoc =
  name :: string
  teacher :: string
  leader :: string

record announcement =
  atext :: string
  createdAt :: nat

text \<open>
  \<^verbatim>\<open>save\<close> validates the document against its schema. The paths declared
  \<^verbatim>\<open>required: true\<close> (lines 44 to 48 and 54 to 58) must be there, and the required
  validator of a String path also refuses the empty string. The Number paths of a
  student are always there in the record, and \<open>classTeacherClass\<close> is not required.
\<close>

definition valid_student :: "student \<Rightarrow> bool" where
  "valid_student s = (student.name s \<noteq> [] \<and> sclass s \<noteq> [])"

definition valid_teacher :: "teacher \<Rightarrow> bool" where
  "valid_teacher t =
     (teacher.name t \<noteq> [] \<and> subject t \<noteq> [] \<and> role t \<noteq> [] \<and> email t \<noteq> [])"

text \<open>
  Writing a request value to a schema path casts it to the path's type. A value that
  already has the type is stored as it is. What the store makes of a value of another
  type is not decided by \<^verbatim>\<open>server.js\<close>: it is a parameter of the model, \<open>None\<close>
  where the store refuses the value (the write then fails).
\<close>

type_synonym oid = nat

record casts =
  stringOf :: "jv \<Rightarrow> string option"
  numberOf :: "jv \<Rightarrow> rat option"
  objectIdOf :: "string \<Rightarrow> oid option"

definition castString :: "casts \<Rightarrow> jv \<Rightarrow> string option" where
  "castString cs v = (case v of JStr s \<Rightarrow> Some s | _ \<Rightarrow> stringOf cs v)"

definition castNumber :: "casts \<Rightarrow> jv \<Rightarrow> rat option" where
  "castNumber cs v = (case v of JNum n \<Rightarrow> Some n | _ \<Rightarrow> numberOf cs v)"

text \<open>
  The \<^verbatim>\<open>:id\<close> segment of a path is a string, which \<^verbatim>\<open>findByIdAndDelete\<close> casts to
  an identifier of the store; a segment that is no identifier makes the call throw.
  Which strings are identifiers is the store's matter too (\<open>objectIdOf\<close>). One
  reading: the 24 hexadecimal digits of an ObjectId.
\<close>

definition hexDigit :: "char \<Rightarrow> nat option" where
  "hexDigit c = map_of (zip ''0123456789abcdef'' [0 ..< 16] @ zip ''ABCDEF'' [10 ..< 16]) c"

fun hexValue :: "nat \<Rightarrow> string \<Rightarrow> nat option" where
  "hexValue acc [] = Some acc"
| "hexValue acc (c # cs) =
     (case hexDigit c of None \<Rightarrow> None | Some v \<Rightarrow> hexValue (16 * acc + v) cs)"

definition hexObjectId :: "string \<Rightarrow> oid option" where
  "hexObjectId s = (if length s = 24 then hexValue 0 s else None)"

text \<open>The casts of a store that refuses every value of another type, and reads
  identifiers as 24 hexadecimal digits.\<close>

definition strictCasts :: casts where
  "strictCasts = \<lparr>stringOf = (\<lambda>v. None), numberOf = (\<lambda>v. None), objectIdOf = hexObjectId\<rparr>"

section \<open>The document store\<close>

text \<open>
  A collection is the list of its documents in natural order, each with its identifier.
  Identifiers are opaque handles. The store is reliable: an operation fails only where
  a value cannot be cast or a document does not pass validation. The update and payment
  routes are modelled from the identifier their \<^verbatim>\<open>:id\<close> segment denotes; the delete
  routes from the segment itself.
\<close>

type_synonym 'a collection = "(oid \<times> 'a) list"

record db =
  students :: "student collection"
  teachers :: "teacher collection"
  classes :: "classdoc collection"
  announcements :: "announcement collection"
  nextId :: oid

definition findOne :: "(oid \<times> 'a \<Rightarrow> bool) \<Rightarrow> 'a collection \<Rightarrow> (oid \<times> 'a) option" where
  "findOne p c = List.find p c"

definition findById :: "'a collection \<Rightarrow> oid \<Rightarrow> (oid \<times> 'a) option" where
  "findById c i = findOne (\<lambda>d. fst d = i) c"

text \<open>\<^verbatim>\<open>doc.save()\<close> of a document loaded from the store: the stored document with
  its identifier is replaced.\<close>

fun saveDoc :: "oid \<times> 'a \<Rightarrow> 'a collection \<Rightarrow> 'a collection" where
  "saveDoc d [] = []"
| "saveDoc d (e # c) = (if fst e = fst d then d # c else e # saveDoc d c)"

fun findByIdAndDelete :: "oid \<Rightarrow> 'a collection \<Rightarrow> 'a collection" where
  "findByIdAndDelete i [] = []"
| "findByIdAndDelete i (e # c) = (if fst e = i then c else e # findByIdAndDelete i c)"

definition countDocuments :: "'a collection \<Rightarrow> nat" where
  "countDocuments c = length c"

text \<open>\<^verbatim>\<open>insertMany\<close>: the documents get consecutive fresh identifiers.\<close>

definition insertMany :: "oid \<Rightarrow> 'a list \<Rightarrow> 'a collection" where
  "insertMany n ds = zip [n ..< n + length ds] ds"

section \<open>Responses\<close>

text \<open>
  The body of a response is the JSON of a document, or \<^verbatim>\<open>{ error: message }\<close>. The
  conflict message of the teacher routes is the template
  \<^verbatim>\<open>Class "${classTeacherClass}" already has a class teacher (${existing.name}).\<close>,
  kept as the two values it interpolates. \<open>Failure\<close> is the body of a 500 response.
\<close>

datatype 'a payload =
    Json 'a
  | Error string
  | ClassTaken jv string
  | Failure
  | NoBody

datatype 'a response = Response (status: nat) (payload: "'a payload")

section \<open>Student routes\<close>

text \<open>\<^verbatim>\<open>new Student({...}).save()\<close> or \<^verbatim>\<open>student.save()\<close> followed by the
  response; a document that does not pass validation makes \<^verbatim>\<open>save\<close> throw, and the
  handler's \<^verbatim>\<open>catch\<close> answers 500.\<close>

definition newStudent :: "casts \<Rightarrow> jv \<Rightarrow> jv \<Rightarrow> jv \<Rightarrow> jv \<Rightarrow> student option" where
  "newStudent cs vname vage vclass vdue =
     (case (castString cs vname, castNumber cs vage, castString cs vclass, castNumber cs vdue) of
        (Some n, Some a, Some c, Some d) \<Rightarrow>
          Some \<lparr>student.name = n, age = a, sclass = c, fees = \<lparr>due = d, payments = []\<rparr>\<rparr>
      | _ \<Rightarrow> None)"

definition saveStudent :: "oid \<Rightarrow> student \<Rightarrow> db \<Rightarrow> (oid \<times> student) response \<times> db" where
  "saveStudent i s db =
     (if valid_student s
      then (Response 200 (Json (i, s)), db\<lparr>students := saveDoc (i, s) (students db)\<rparr>)
      else (Response 500 Failure, db))"

text \<open>POST /api/students (lines 124 to 147).\<close>

definition post_students :: "casts \<Rightarrow> body \<Rightarrow> db \<Rightarrow> (oid \<times> student) response \<times> db" where
  "post_students cs b db =
     (let name = bodyField b ''name''; age = bodyField b ''age'';
          sclass = bodyField b ''class''; feesDue = bodyField b ''feesDue''
      in if falsy name \<or> falsy age \<or> falsy sclass \<or> falsy feesDue
         then (Response 400 (Error ''name, age, class, feesDue are required''), db)
         else (case newStudent cs name age sclass feesDue of
                 None \<Rightarrow> (Response 500 Failure, db)
               | Some s \<Rightarrow>
                   if valid_student s
                   then (Response 201 (Json (nextId db, s)),
                         db\<lparr>students := students db @ [(nextId db, s)], nextId := Suc (nextId db)\<rparr>)
                   else (Response 500 Failure, db)))"

text \<open>The four guarded assignments of PATCH /api/students/:id (lines 159 to 162):
  \<^verbatim>\<open>if (typeof name === 'string') student.name = name;\<close> and so on.\<close>

definition assignStudent :: "body \<Rightarrow> student \<Rightarrow> student" where
  "assignStudent b s0 =
     (let s1 = (case bodyField b ''name'' of JStr n \<Rightarrow> s0\<lparr>student.name := n\<rparr> | _ \<Rightarrow> s0);
          s2 = (case bodyField b ''age'' of JNum a \<Rightarrow> s1\<lparr>age := a\<rparr> | _ \<Rightarrow> s1);
          s3 = (case bodyField b ''class'' of JStr c \<Rightarrow> s2\<lparr>sclass := c\<rparr> | _ \<Rightarrow> s2);
          s4 = (case bodyField b ''feesDue'' of JNum d \<Rightarrow> s3\<lparr>fees := (fees s3)\<lparr>due := d\<rparr>\<rparr> | _ \<Rightarrow> s3)
      in s4)"

text \<open>PATCH /api/students/:id (lines 150 to 170).\<close>

definition patch_students :: "oid \<Rightarrow> body \<Rightarrow> db \<Rightarrow> (oid \<times> student) response \<times> db" where
  "patch_students i b db =
     (case findById (students db) i of
        None \<Rightarrow> (Response 404 (Error ''Student not found''), db)
      | Some d \<Rightarrow> saveStudent i (assignStudent b (snd d)) db)"

text \<open>POST /api/students/:id/payments (lines 173 to 191).\<close>

definition post_payments :: "casts \<Rightarrow> oid \<Rightarrow> body \<Rightarrow> db \<Rightarrow> (oid \<times> student) response \<times> db" where
  "post_payments cs i b db =
     (let amount = bodyField b ''amount''; date = bodyField b ''date''
      in if falsy amount \<or> falsy date
         then (Response 400 (Error ''amount and date are required''), db)
         else (case findById (students db) i of
                 None \<Rightarrow> (Response 404 (Error ''Student not found''), db)
               | Some d \<Rightarrow>
                   (case (castNumber cs amount, castString cs date) of
                      (Some a, Some t) \<Rightarrow>
                        saveStudent i
                          ((snd d)\<lparr>fees := (fees (snd d))
                             \<lparr>payments := payments (fees (snd d)) @ [\<lparr>amount = a, date = t\<rparr>]\<rparr>\<rparr>) db
                    | _ \<Rightarrow> (Response 500 Failure, db))))"

text \<open>DELETE /api/students/:id (lines 194 to 202).\<close>

definition delete_students :: "casts \<Rightarrow> string \<Rightarrow> db \<Rightarrow> unit response \<times> db" where
  "delete_students cs seg db =
     (case objectIdOf cs seg of
        None \<Rightarrow> (Response 500 (Error ''Server error''), db)
      | Some i \<Rightarrow> (Response 204 NoBody, db\<lparr>students := findByIdAndDelete i (students db)\<rparr>))"

section \<open>Teacher routes\<close>

definition newTeacher :: "casts \<Rightarrow> jv \<Rightarrow> jv \<Rightarrow> jv \<Rightarrow> jv \<Rightarrow> jv \<Rightarrow> teacher option" where
  "newTeacher cs vname vsubject vrole vemail vclass =
     (case (castString cs vname, castString cs vsubject, castString cs vrole,
            castString cs vemail, castString cs vclass) of
        (Some n, Some s, Some r, Some e, Some c) \<Rightarrow>
          Some \<lparr>teacher.name = n, subject = s, role = r, classTeacherClass = c, email = e\<rparr>
      | _ \<Rightarrow> None)"

definition saveTeacher :: "oid \<Rightarrow> teacher \<Rightarrow> db \<Rightarrow> (oid \<times> teacher) response \<times> db" where
  "saveTeacher i t db =
     (if valid_teacher t
      then (Response 200 (Json (i, t)), db\<lparr>teachers := saveDoc (i, t) (teachers db)\<rparr>)
      else (Response 500 Failure, db))"

text \<open>The conflict query of both teacher routes:
  \<^verbatim>\<open>Teacher.findOne({ role: 'Class Teacher', classTeacherClass: c })\<close>, on update with
  \<^verbatim>\<open>_id: { $ne: teacher._id }\<close> as well (\<open>keep\<close> says which identifiers the query
  looks at).\<close>

definition classTeacherOf :: "(oid \<Rightarrow> bool) \<Rightarrow> string \<Rightarrow> teacher collection \<Rightarrow> (oid \<times> teacher) option" where
  "classTeacherOf keep c ts =
     findOne (\<lambda>d. keep (fst d) \<and> role (snd d) = ''Class Teacher'' \<and> classTeacherClass (snd d) = c) ts"

text \<open>POST /api/teachers (lines 217 to 252).\<close>

definition post_teachers :: "casts \<Rightarrow> body \<Rightarrow> db \<Rightarrow> (oid \<times> teacher) response \<times> db" where
  "post_teachers cs b db =
     (let name = bodyField b ''name''; subject = bodyField b ''subject'';
          role = bodyField b ''role''; classTeacherClass = bodyField b ''classTeacherClass'';
          email = bodyField b ''email''
      in if falsy name \<or> falsy subject \<or> falsy role \<or> falsy email
         then (Response 400 (Error ''name, subject, role, email are required''), db)
         else
           (case (if role = JStr ''Class Teacher'' \<and> \<not> falsy classTeacherClass
                  then (case castString cs classTeacherClass of
                          None \<Rightarrow> Inl ()
                        | Some c \<Rightarrow> Inr (classTeacherOf (\<lambda>j. True) c (teachers db)))
                  else Inr None) of
              Inl u \<Rightarrow> (Response 500 Failure, db)
            | Inr (Some existing) \<Rightarrow>
                (Response 400 (ClassTaken classTeacherClass (teacher.name (snd existing))), db)
            | Inr None \<Rightarrow>
                (case newTeacher cs name subject role email
                        (if role = JStr ''Class Teacher''
                         then (if falsy classTeacherClass then JStr [] else classTeacherClass)
                         else JStr []) of
                   None \<Rightarrow> (Response 500 Failure, db)
                 | Some t \<Rightarrow>
                     if valid_teacher t
                     then (Response 201 (Json (nextId db, t)),
                           db\<lparr>teachers := teachers db @ [(nextId db, t)], nextId := Suc (nextId db)\<rparr>)
                     else (Response 500 Failure, db))))"

text \<open>The four guarded assignments of PATCH /api/teachers/:id (lines 263 to 266).\<close>

definition assignTeacher :: "body \<Rightarrow> teacher \<Rightarrow> teacher" where
  "assignTeacher b t0 =
     (let t1 = (case bodyField b ''name'' of JStr n \<Rightarrow> t0\<lparr>teacher.name := n\<rparr> | _ \<Rightarrow> t0);
          t2 = (case bodyField b ''subject'' of JStr s \<Rightarrow> t1\<lparr>subject := s\<rparr> | _ \<Rightarrow> t1);
          t3 = (case bodyField b ''role'' of JStr r \<Rightarrow> t2\<lparr>role := r\<rparr> | _ \<Rightarrow> t2);
          t4 = (case bodyField b ''email'' of JStr e \<Rightarrow> t3\<lparr>email := e\<rparr> | _ \<Rightarrow> t3)
      in t4)"

text \<open>PATCH /api/teachers/:id (lines 255 to 297).\<close>

definition patch_teachers :: "casts \<Rightarrow> oid \<Rightarrow> body \<Rightarrow> db \<Rightarrow> (oid \<times> teacher) response \<times> db" where
  "patch_teachers cs i b db =
     (let role = bodyField b ''role''; classTeacherClass = bodyField b ''classTeacherClass''
      in case findById (teachers db) i of
           None \<Rightarrow> (Response 404 (Error ''Teacher not found''), db)
         | Some d \<Rightarrow>
             (let t = assignTeacher b (snd d)
              in if role = JStr ''Class Teacher''
                 then (if \<not> falsy classTeacherClass
                       then (case castString cs classTeacherClass of
                               None \<Rightarrow> (Response 500 Failure, db)
                             | Some c \<Rightarrow>
                                 (case classTeacherOf (\<lambda>j. j \<noteq> i) c (teachers db) of
                                    Some existing \<Rightarrow>
                                      (Response 400
                                         (ClassTaken classTeacherClass (teacher.name (snd existing))), db)
                                  | None \<Rightarrow> saveTeacher i (t\<lparr>classTeacherClass := c\<rparr>) db))
                       else saveTeacher i (t\<lparr>classTeacherClass := []\<rparr>) db)
                 else saveTeacher i (t\<lparr>classTeacherClass := []\<rparr>) db))"

text \<open>DELETE /api/teachers/:id (lines 301 to 309).\<close>

definition delete_teachers :: "casts \<Rightarrow> string \<Rightarrow> db \<Rightarrow> unit response \<times> db" where
  "delete_teachers cs seg db =
     (case objectIdOf cs seg of
        None \<Rightarrow> (Response 500 (Error ''Server error''), db)
      | Some i \<Rightarrow> (Response 204 NoBody, db\<lparr>teachers := findByIdAndDelete i (teachers db)\<rparr>))"

section \<open>Class routes\<close>

definition base :: "classdoc list" where
  "base = map (\<lambda>n. \<lparr>classdoc.name = n, teacher = [], leader = []\<rparr>)
     [''Grade 1'', ''Grade 2'', ''Grade 3'', ''Grade 4'', ''Grade 5'',
      ''Grade 6'', ''Grade 7'', ''Grade 8'', ''Grade 9'']"

text \<open>POST /api/classes/init (lines 325 to 348).\<close>

definition post_classes_init :: "db \<Rightarrow> (oid \<times> classdoc) list response \<times> db" where
  "post_classes_init db =
     (let existing = countDocuments (classes db)
      in if existing > 0
         then (Response 400 (Error ''Classes already initialized''), db)
         else (let created = insertMany (nextId db) base
               in (Response 201 (Json created),
                   db\<lparr>classes := classes db @ created, nextId := nextId db + length base\<rparr>)))"

section \<open>Announcements and the notification helper\<close>

text \<open>
  An outbound message, and the lines the helper writes to the console. The transport
  \<^verbatim>\<open>sgMail.send\<close> is a parameter: \<open>send m\<close> says whether the call for \<open>m\<close> resolves
  (\<open>False\<close>: it rejects, and the \<^verbatim>\<open>await\<close> throws).
\<close>

record msg =
  msg_to :: string
  msg_from :: string
  msg_subject :: string
  msg_text :: string

datatype logline = Sending | NoTeachers | SentTo string | SendGridError

record dispatch =
  attempted :: "msg list"
  console :: "logline list"

text \<open>\<^verbatim>\<open>process.env.EMAIL_FROM || 'Kingtech School <kingsson128@gmail.com>'\<close>\<close>

definition sender :: "string option \<Rightarrow> string" where
  "sender env =
     (case env of
        None \<Rightarrow> ''Kingtech School <kingsson128@gmail.com>''
      | Some s \<Rightarrow> if s = [] then ''Kingtech School <kingsson128@gmail.com>'' else s)"

definition mkMsg :: "string option \<Rightarrow> string \<Rightarrow> oid \<times> teacher \<Rightarrow> msg" where
  "mkMsg env announcementText t =
     \<lparr>msg_to = email (snd t), msg_from = sender env,
      msg_subject = '' New School Announcement'', msg_text = announcementText\<rparr>"

text \<open>The \<^verbatim>\<open>for\<close> loop of lines 88 to 98, inside the \<^verbatim>\<open>try\<close> of line 79: a send
  that rejects leaves the loop for the \<^verbatim>\<open>catch\<close> of line 99.\<close>

fun sendEach :: "(msg \<Rightarrow> bool) \<Rightarrow> msg list \<Rightarrow> dispatch" where
  "sendEach send [] = \<lparr>attempted = [], console = []\<rparr>"
| "sendEach send (m # ms) =
     (if send m
      then (let r = sendEach send ms
            in \<lparr>attempted = m # attempted r, console = SentTo (msg_to m) # console r\<rparr>)
      else \<lparr>attempted = [m], console = [SendGridError]\<rparr>)"

text \<open>The query of line 81, \<^verbatim>\<open>Teacher.find({ email: { $exists: true, $ne: '' } })\<close>:
  the \<open>email\<close> path of a stored teacher is always there.\<close>

definition teachersWithEmail :: "db \<Rightarrow> teacher collection" where
  "teachersWithEmail db = filter (\<lambda>t. email (snd t) \<noteq> []) (teachers db)"

text \<open>\<^verbatim>\<open>sendAnnouncementEmailToTeachers\<close> (lines 78 to 102).\<close>

definition sendAnnouncementEmailToTeachers ::
  "(msg \<Rightarrow> bool) \<Rightarrow> string option \<Rightarrow> string \<Rightarrow> db \<Rightarrow> dispatch" where
  "sendAnnouncementEmailToTeachers send env announcementText db =
     (let found = teachersWithEmail db
      in if length found = 0
         then \<lparr>attempted = [], console = [Sending, NoTeachers]\<rparr>
         else (let r = sendEach send (map (mkMsg env announcementText) found)
               in r\<lparr>console := Sending # console r\<rparr>))"

text \<open>POST /api/announcements (lines 381 to 398). The helper is started after the
  save and not awaited; the model runs it on the store as the save left it and returns
  what it did beside the response (\<open>None\<close> when it was not started). \<open>now\<close> is
  \<^verbatim>\<open>Date.now\<close>.\<close>

definition post_announcements ::
  "casts \<Rightarrow> (msg \<Rightarrow> bool) \<Rightarrow> string option \<Rightarrow> nat \<Rightarrow> body \<Rightarrow> db
     \<Rightarrow> (oid \<times> announcement) response \<times> db \<times> dispatch option" where
  "post_announcements cs send env now b db =
     (let vtext = bodyField b ''text''
      in if falsy vtext
         then (Response 400 (Error ''text is required''), db, None)
         else (case castString cs vtext of
                 None \<Rightarrow> (Response 500 Failure, db, None)
               | Some s \<Rightarrow>
                   if s = [] then (Response 500 Failure, db, None)
                   else (let saved = (nextId db, \<lparr>atext = s, createdAt = now\<rparr>);
                             db' = db\<lparr>announcements := announcements db @ [saved],
                                      nextId := Suc (nextId db)\<rparr>
                         in (Response 201 (Json saved), db',
                             Some (sendAnnouncementEmailToTeachers send env (atext (snd saved)) db')))))"

section \<open>A sample store\<close>

text \<open>A small store for the concrete instances below: one student, the class teacher
  of Grade 1 and a teacher without a class.\<close>

definition ann :: teacher where
  "ann = \<lparr>teacher.name = ''Ann'', subject = ''Math'', role = ''Class Teacher'',
           classTeacherClass = ''Grade 1'', email = ''ann@x''\<rparr>"

definition bob :: teacher where
  "bob = \<lparr>teacher.name = ''Bob'', subject = ''Art'', role = ''Teacher'',
           classTeacherClass = [], email = ''bob@x''\<rparr>"

definition sam :: student where
  "sam = \<lparr>student.name = ''Sam'', age = 7, sclass = ''Grade 1'',
           fees = \<lparr>due = 50, payments = []\<rparr>\<rparr>"

definition school :: db where
  "school = \<lparr>students = [(0, sam)], teachers = [(1, ann), (2, bob)], classes = [],
              announcements = [], nextId = 3\<rparr>"

text \<open>A second store, with a teacher whose email is empty between the two.\<close>

definition cat :: teacher where
  "cat = \<lparr>teacher.name = ''Cat'', subject = ''Music'', role = ''Teacher'',
           classTeacherClass = [], email = []\<rparr>"

definition school2 :: db where
  "school2 = school\<lparr>teachers := [(1, ann), (4, cat), (2, bob)], nextId := 5\<rparr>"

text \<open>Two transports: one that delivers every message, one that rejects the
  messages to Ann.\<close>

definition delivers :: "msg \<Rightarrow> bool" where
  "delivers m = True"

definition rejectsAnn :: "msg \<Rightarrow> bool" where
  "rejectsAnn m = (msg_to m \<noteq> ''ann@x'')"

section \<open>Facts about the store operations\<close>

lemma findById_saveDoc: "findById c i = Some d \<Longrightarrow> findById (saveDoc (i, x) c) i = Some (i, x)"
  by (induction c) (auto simp: findById_def findOne_def split: if_splits)

lemma findByIdAndDelete_absent: "findById c i = None \<Longrightarrow> findByIdAndDelete i c = c"
  by (induction c) (auto simp: findById_def findOne_def split: if_splits)

section \<open>Required fields\<close>

text \<open>
  Claim C7. A student-creation request whose \<^verbatim>\<open>age\<close> or \<^verbatim>\<open>feesDue\<close> is the number
  zero, and a payment request whose \<^verbatim>\<open>amount\<close> is the number zero, is answered 400 with
  the message that names the required fields, whatever the other fields hold, and the
  store is left as it was: the check \<^verbatim>\<open>!age\<close> is true of zero.
\<close>

theorem required_zero_rejected:
  "(bodyField b ''age'' = JNum 0 \<or> bodyField b ''feesDue'' = JNum 0 \<longrightarrow>
      post_students cs b db =
        (Response 400 (Error ''name, age, class, feesDue are required''), db)) \<and>
   (bodyField b ''amount'' = JNum 0 \<longrightarrow>
      post_payments cs i b db = (Response 400 (Error ''amount and date are required''), db))"
  by (auto simp: post_students_def post_payments_def Let_def)

theorem required_zero_rejected_witness:
  "post_students strictCasts
     [''name'' \<mapsto> JStr ''Tom'', ''age'' \<mapsto> JNum 0, ''class'' \<mapsto> JStr ''Grade 1'',
      ''feesDue'' \<mapsto> JNum 40] school
     = (Response 400 (Error ''name, age, class, feesDue are required''), school) \<and>
   post_payments strictCasts 0 [''amount'' \<mapsto> JNum 0, ''date'' \<mapsto> JStr ''2024-01-01''] school
     = (Response 400 (Error ''amount and date are required''), school)"
  using required_zero_rejected
          [of "[''name'' \<mapsto> JStr ''Tom'', ''age'' \<mapsto> JNum 0, ''class'' \<mapsto> JStr ''Grade 1'',
                ''feesDue'' \<mapsto> JNum 40]" strictCasts school]
        required_zero_rejected
          [of "[''amount'' \<mapsto> JNum 0, ''date'' \<mapsto> JStr ''2024-01-01'']" strictCasts school 0]
  by (simp add: bodyField_def)

section \<open>Facts about the guarded assignments and the saves\<close>

lemma assignTeacher_fields:
  "teacher.name (assignTeacher b t) = (case bodyField b ''name'' of JStr n \<Rightarrow> n | _ \<Rightarrow> teacher.name t)"
  "subject (assignTeacher b t) = (case bodyField b ''subject'' of JStr s \<Rightarrow> s | _ \<Rightarrow> subject t)"
  "role (assignTeacher b t) = (case bodyField b ''role'' of JStr r \<Rightarrow> r | _ \<Rightarrow> role t)"
  "email (assignTeacher b t) = (case bodyField b ''email'' of JStr e \<Rightarrow> e | _ \<Rightarrow> email t)"
  "classTeacherClass (assignTeacher b t) = classTeacherClass t"
  by (simp_all add: assignTeacher_def Let_def split: jv.splits)

lemma assignStudent_fields:
  "student.name (assignStudent b s) = (case bodyField b ''name'' of JStr n \<Rightarrow> n | _ \<Rightarrow> student.name s)"
  "age (assignStudent b s) = (case bodyField b ''age'' of JNum a \<Rightarrow> a | _ \<Rightarrow> age s)"
  "sclass (assignStudent b s) = (case bodyField b ''class'' of JStr c \<Rightarrow> c | _ \<Rightarrow> sclass s)"
  "due (fees (assignStudent b s)) = (case bodyField b ''feesDue'' of JNum d \<Rightarrow> d | _ \<Rightarrow> due (fees s))"
  "payments (fees (assignStudent b s)) = payments (fees s)"
  by (simp_all add: assignStudent_def Let_def split: jv.splits)

lemma valid_teacher_class [simp]:
  "valid_teacher (t\<lparr>classTeacherClass := c\<rparr>) = valid_teacher t"
  by (simp add: valid_teacher_def)

lemma saveTeacher_valid:
  "valid_teacher t \<Longrightarrow>
   saveTeacher i t db = (Response 200 (Json (i, t)), db\<lparr>teachers := saveDoc (i, t) (teachers db)\<rparr>)"
  by (simp add: saveTeacher_def)

lemma saveTeacher_cases:
  "saveTeacher i t db = (r, db') \<Longrightarrow>
   (r = Response 200 (Json (i, t)) \<and> db' = db\<lparr>teachers := saveDoc (i, t) (teachers db)\<rparr>) \<or>
   (r = Response 500 Failure \<and> db' = db)"
  by (auto simp: saveTeacher_def split: if_splits)

section \<open>The class initializer\<close>

lemma insertMany_base:
  "insertMany n base =
     [(n, \<lparr>classdoc.name = ''Grade 1'', teacher = [], leader = []\<rparr>),
      (n + 1, \<lparr>classdoc.name = ''Grade 2'', teacher = [], leader = []\<rparr>),
      (n + 2, \<lparr>classdoc.name = ''Grade 3'', teacher = [], leader = []\<rparr>),
      (n + 3, \<lparr>classdoc.name = ''Grade 4'', teacher = [], leader = []\<rparr>),
      (n + 4, \<lparr>classdoc.name = ''Grade 5'', teacher = [], leader = []\<rparr>),
      (n + 5, \<lparr>classdoc.name = ''Grade 6'', teacher = [], leader = []\<rparr>),
      (n + 6, \<lparr>classdoc.name = ''Grade 7'', teacher = [], leader = []\<rparr>),
      (n + 7, \<lparr>classdoc.name = ''Grade 8'', teacher = [], leader = []\<rparr>),
      (n + 8, \<lparr>classdoc.name = ''Grade 9'', teacher = [], leader = []\<rparr>)]"
proof -
  have "[n ..< n + 9] = [n, n + 1, n + 2, n + 3, n + 4, n + 5, n + 6, n + 7, n + 8]"
    by (simp add: upt_rec)
  then show ?thesis
    by (simp add: insertMany_def base_def)
qed

text \<open>
  Claim C8. When a class document exists, the initializer answers 400 "Classes already
  initialized" and leaves the store as it was. When none exists, it answers 201 with
  the nine documents it created, named "Grade 1" to "Grade 9" in this order; they are
  then the class collection, the other collections are untouched, and a second call is
  refused.
\<close>

theorem classes_init_once:
  "(classes db \<noteq> [] \<longrightarrow>
      post_classes_init db = (Response 400 (Error ''Classes already initialized''), db)) \<and>
   (classes db = [] \<longrightarrow>
      (\<exists>created db'.
         post_classes_init db = (Response 201 (Json created), db') \<and>
         classes db' = created \<and> length created = 9 \<and>
         map (\<lambda>d. classdoc.name (snd d)) created =
           [''Grade 1'', ''Grade 2'', ''Grade 3'', ''Grade 4'', ''Grade 5'',
            ''Grade 6'', ''Grade 7'', ''Grade 8'', ''Grade 9''] \<and>
         students db' = students db \<and> teachers db' = teachers db \<and>
         announcements db' = announcements db \<and>
         post_classes_init db' = (Response 400 (Error ''Classes already initialized''), db')))"
proof (intro conjI impI)
  assume "classes db \<noteq> []"
  then show "post_classes_init db = (Response 400 (Error ''Classes already initialized''), db)"
    by (simp add: post_classes_init_def countDocuments_def)
next
  assume e: "classes db = []"
  let ?created = "insertMany (nextId db) base"
  let ?db' = "db\<lparr>classes := classes db @ ?created, nextId := nextId db + length base\<rparr>"
  have 1: "post_classes_init db = (Response 201 (Json ?created), ?db')"
    using e by (simp add: post_classes_init_def countDocuments_def Let_def)
  have 2: "classes ?db' = ?created" using e by simp
  have 3: "length ?created = 9" by (simp add: insertMany_base)
  have 4: "map (\<lambda>d. classdoc.name (snd d)) ?created =
           [''Grade 1'', ''Grade 2'', ''Grade 3'', ''Grade 4'', ''Grade 5'',
            ''Grade 6'', ''Grade 7'', ''Grade 8'', ''Grade 9'']"
    by (simp add: insertMany_base)
  have 5: "post_classes_init ?db' = (Response 400 (Error ''Classes already initialized''), ?db')"
    using e by (simp add: post_classes_init_def countDocuments_def insertMany_base)
  show "\<exists>created db'.
         post_classes_init db = (Response 201 (Json created), db') \<and>
         classes db' = created \<and> length created = 9 \<and>
         map (\<lambda>d. classdoc.name (snd d)) created =
           [''Grade 1'', ''Grade 2'', ''Grade 3'', ''Grade 4'', ''Grade 5'',
            ''Grade 6'', ''Grade 7'', ''Grade 8'', ''Grade 9''] \<and>
         students db' = students db \<and> teachers db' = teachers db \<and>
         announcements db' = announcements db \<and>
         post_classes_init db' = (Response 400 (Error ''Classes already initialized''), db')"
    using 1 2 3 4 5 by (intro exI [of _ ?created] exI [of _ ?db']) simp
qed

theorem classes_init_once_witness:
  "status (fst (post_classes_init school)) = 201 \<and>
   map (\<lambda>d. classdoc.name (snd d)) (classes (snd (post_classes_init school))) =
     [''Grade 1'', ''Grade 2'', ''Grade 3'', ''Grade 4'', ''Grade 5'',
      ''Grade 6'', ''Grade 7'', ''Grade 8'', ''Grade 9''] \<and>
   post_classes_init (snd (post_classes_init school)) =
     (Response 400 (Error ''Classes already initialized''), snd (post_classes_init school))"
proof -
  have e: "classes school = []" by (simp add: school_def)
  have n: "classes (snd (post_classes_init school)) \<noteq> []"
    using classes_init_once [of school] e by auto
  show ?thesis
    using classes_init_once [of school] classes_init_once [of "snd (post_classes_init school)"] e n
    by auto
qed

section \<open>The class-teacher rule on update and create\<close>



text \<open>What the conflict query finds, in terms of the stored teachers.\<close>

lemma classTeacherOf_None:
  "(classTeacherOf keep c ts = None) =
   (\<not> (\<exists>e \<in> set ts. keep (fst e) \<and> role (snd e) = ''Class Teacher'' \<and> classTeacherClass (snd e) = c))"
  unfolding classTeacherOf_def findOne_def find_None_iff by blast

lemma classTeacherOf_Some:
  "classTeacherOf keep c ts = Some e \<Longrightarrow>
   e \<in> set ts \<and> keep (fst e) \<and> role (snd e) = ''Class Teacher'' \<and> classTeacherClass (snd e) = c"
  by (auto simp: classTeacherOf_def findOne_def find_Some_iff)

text \<open>
  Claim C1, as stated, fails: a request with the role "Class Teacher" and a non-empty
  class but without a name is answered 400 with the required-fields message, whether
  or not the class has a teacher; the check of lines 220 to 222 comes first.
\<close>

theorem create_without_name_rejected:
  "teachers school = [(1, ann), (2, bob)] \<and>
   role ann = ''Class Teacher'' \<and> classTeacherClass ann = ''Grade 1'' \<and> role bob = ''Teacher'' \<and>
   post_teachers strictCasts
     [''role'' \<mapsto> JStr ''Class Teacher'', ''classTeacherClass'' \<mapsto> JStr ''Grade 2''] school =
     (Response 400 (Error ''name, subject, role, email are required''), school) \<and>
   post_teachers strictCasts
     [''role'' \<mapsto> JStr ''Class Teacher'', ''classTeacherClass'' \<mapsto> JStr ''Grade 1''] school =
     (Response 400 (Error ''name, subject, role, email are required''), school)"
  by (simp add: post_teachers_def bodyField_def school_def ann_def bob_def)

text \<open>
  Claim C1, amended. For a creation request whose name, subject and email are
  non-empty strings, whose role is "Class Teacher" and whose \<open>classTeacherClass\<close> is
  a non-empty string \<open>c\<close>: if a stored teacher has the role "Class Teacher" and the
  class \<open>c\<close>, the answer is 400 with the conflict message for \<open>c\<close> that names such a
  teacher, and the store is unchanged; if none has, the answer is 201 and the new
  teacher is stored as the class teacher of \<open>c\<close>.
\<close>

theorem create_class_teacher:
  assumes "bodyField b ''name'' = JStr n" and "n \<noteq> []"
    and "bodyField b ''subject'' = JStr s" and "s \<noteq> []"
    and "bodyField b ''email'' = JStr e" and "e \<noteq> []"
    and "bodyField b ''role'' = JStr ''Class Teacher''"
    and "bodyField b ''classTeacherClass'' = JStr c" and "c \<noteq> []"
  shows "((\<exists>x \<in> set (teachers db). role (snd x) = ''Class Teacher'' \<and> classTeacherClass (snd x) = c) \<longrightarrow>
          (\<exists>x \<in> set (teachers db). role (snd x) = ''Class Teacher'' \<and> classTeacherClass (snd x) = c \<and>
             post_teachers cs b db = (Response 400 (ClassTaken (JStr c) (teacher.name (snd x))), db))) \<and>
         (\<not> (\<exists>x \<in> set (teachers db). role (snd x) = ''Class Teacher'' \<and> classTeacherClass (snd x) = c) \<longrightarrow>
          post_teachers cs b db =
            (Response 201
               (Json (nextId db, \<lparr>teacher.name = n, subject = s, role = ''Class Teacher'',
                                  classTeacherClass = c, email = e\<rparr>)),
             db\<lparr>teachers := teachers db @
                   [(nextId db, \<lparr>teacher.name = n, subject = s, role = ''Class Teacher'',
                                 classTeacherClass = c, email = e\<rparr>)],
                nextId := Suc (nextId db)\<rparr>))"
proof (intro conjI impI)
  assume "\<exists>x \<in> set (teachers db). role (snd x) = ''Class Teacher'' \<and> classTeacherClass (snd x) = c"
  then have "classTeacherOf (\<lambda>j. True) c (teachers db) \<noteq> None"
    by (simp add: classTeacherOf_None)
  then obtain x where x: "classTeacherOf (\<lambda>j. True) c (teachers db) = Some x"
    by blast
  have "post_teachers cs b db = (Response 400 (ClassTaken (JStr c) (teacher.name (snd x))), db)"
    using assms x by (simp add: post_teachers_def Let_def castString_def)
  with classTeacherOf_Some [OF x]
  show "\<exists>x \<in> set (teachers db). role (snd x) = ''Class Teacher'' \<and> classTeacherClass (snd x) = c \<and>
          post_teachers cs b db = (Response 400 (ClassTaken (JStr c) (teacher.name (snd x))), db)"
    by blast
next
  assume "\<not> (\<exists>x \<in> set (teachers db). role (snd x) = ''Class Teacher'' \<and> classTeacherClass (snd x) = c)"
  then have q: "classTeacherOf (\<lambda>j. True) c (teachers db) = None"
    by (simp add: classTeacherOf_None)
  show "post_teachers cs b db =
            (Response 201
               (Json (nextId db, \<lparr>teacher.name = n, subject = s, role = ''Class Teacher'',
                                  classTeacherClass = c, email = e\<rparr>)),
             db\<lparr>teachers := teachers db @
                   [(nextId db, \<lparr>teacher.name = n, subject = s, role = ''Class Teacher'',
                                 classTeacherClass = c, email = e\<rparr>)],
                nextId := Suc (nextId db)\<rparr>)"
    using assms q
    by (simp add: post_teachers_def Let_def castString_def newTeacher_def valid_teacher_def)
qed

theorem create_class_teacher_witness:
  "post_teachers strictCasts
     [''name'' \<mapsto> JStr ''Cy'', ''subject'' \<mapsto> JStr ''PE'', ''role'' \<mapsto> JStr ''Class Teacher'',
      ''email'' \<mapsto> JStr ''cy@x'', ''classTeacherClass'' \<mapsto> JStr ''Grade 1''] school =
     (Response 400 (ClassTaken (JStr ''Grade 1'') ''Ann''), school) \<and>
   post_teachers strictCasts
     [''name'' \<mapsto> JStr ''Cy'', ''subject'' \<mapsto> JStr ''PE'', ''role'' \<mapsto> JStr ''Class Teacher'',
      ''email'' \<mapsto> JStr ''cy@x'', ''classTeacherClass'' \<mapsto> JStr ''Grade 2''] school =
     (Response 201
        (Json (3, \<lparr>teacher.name = ''Cy'', subject = ''PE'', role = ''Class Teacher'',
                   classTeacherClass = ''Grade 2'', email = ''cy@x''\<rparr>)),
      school\<lparr>teachers := teachers school @
                [(3, \<lparr>teacher.name = ''Cy'', subject = ''PE'', role = ''Class Teacher'',
                      classTeacherClass = ''Grade 2'', email = ''cy@x''\<rparr>)],
             nextId := 4\<rparr>)"
proof -
  let ?b1 = "[''name'' \<mapsto> JStr ''Cy'', ''subject'' \<mapsto> JStr ''PE'', ''role'' \<mapsto> JStr ''Class Teacher'',
      ''email'' \<mapsto> JStr ''cy@x'', ''classTeacherClass'' \<mapsto> JStr ''Grade 1'']"
  let ?b2 = "[''name'' \<mapsto> JStr ''Cy'', ''subject'' \<mapsto> JStr ''PE'', ''role'' \<mapsto> JStr ''Class Teacher'',
      ''email'' \<mapsto> JStr ''cy@x'', ''classTeacherClass'' \<mapsto> JStr ''Grade 2'']"
  have n: "''Cy'' \<noteq> []" "''PE'' \<noteq> []" "''cy@x'' \<noteq> []" "''Grade 1'' \<noteq> []" "''Grade 2'' \<noteq> []"
    by simp_all
  have 1: "bodyField ?b1 ''name'' = JStr ''Cy''" "bodyField ?b1 ''subject'' = JStr ''PE''"
    "bodyField ?b1 ''email'' = JStr ''cy@x''" "bodyField ?b1 ''role'' = JStr ''Class Teacher''"
    "bodyField ?b1 ''classTeacherClass'' = JStr ''Grade 1''"
    by (simp_all add: bodyField_def)
  have 2: "bodyField ?b2 ''name'' = JStr ''Cy''" "bodyField ?b2 ''subject'' = JStr ''PE''"
    "bodyField ?b2 ''email'' = JStr ''cy@x''" "bodyField ?b2 ''role'' = JStr ''Class Teacher''"
    "bodyField ?b2 ''classTeacherClass'' = JStr ''Grade 2''"
    by (simp_all add: bodyField_def)
  show ?thesis
    using create_class_teacher [OF 1(1) n(1) 1(2) n(2) 1(3) n(3) 1(4) 1(5) n(4), of school strictCasts]
          create_class_teacher [OF 2(1) n(1) 2(2) n(2) 2(3) n(3) 2(4) 2(5) n(5), of school strictCasts]
    by (simp add: school_def ann_def bob_def)
qed

section \<open>Partial updates\<close>

lemma saveStudent_cases:
  "saveStudent i s db = (r, db') \<Longrightarrow>
   (r = Response 200 (Json (i, s)) \<and> db' = db\<lparr>students := saveDoc (i, s) (students db)\<rparr>) \<or>
   (r = Response 500 Failure \<and> db' = db)"
  by (auto simp: saveStudent_def split: if_splits)

lemma patch_teachers_cases:
  assumes "findById (teachers db) i = Some d" and "patch_teachers cs i b db = (r, db')"
  shows "(\<exists>c. r = Response 200 (Json (i, (assignTeacher b (snd d))\<lparr>classTeacherClass := c\<rparr>)) \<and>
              db' = db\<lparr>teachers := saveDoc (i, (assignTeacher b (snd d))\<lparr>classTeacherClass := c\<rparr>)
                                     (teachers db)\<rparr>) \<or>
         (status r \<noteq> 200 \<and> db' = db)"
  using assms
  by (auto simp: patch_teachers_def Let_def split: if_splits option.splits dest!: saveTeacher_cases)

text \<open>
  Claim C3, as stated, fails for the \<open>classTeacherClass\<close> of a teacher: a PATCH whose
  body is only \<^verbatim>\<open>{ role: "Teacher" }\<close> has no \<^verbatim>\<open>classTeacherClass\<close>, and the stored
  class "Grade 1" of the teacher is replaced by the empty string.
\<close>

theorem absent_class_is_cleared:
  "bodyField [''role'' \<mapsto> JStr ''Teacher''] ''classTeacherClass'' = JUndefined \<and>
   findById (teachers school) 1 = Some (1, ann) \<and>
   classTeacherClass ann = ''Grade 1'' \<and>
   patch_teachers strictCasts 1 [''role'' \<mapsto> JStr ''Teacher''] school =
     (Response 200 (Json (1, ann\<lparr>role := ''Teacher'', classTeacherClass := []\<rparr>)),
      school\<lparr>teachers := [(1, ann\<lparr>role := ''Teacher'', classTeacherClass := []\<rparr>), (2, bob)]\<rparr>)"
  by (simp add: patch_teachers_def bodyField_def school_def findById_def findOne_def
      assignTeacher_def saveTeacher_def valid_teacher_def ann_def Let_def)

text \<open>
  Claim C3, amended. For a PATCH of an existing student, and for the name, subject,
  role and email of an existing teacher: when the update is saved (200), each of these
  fields holds the request's value if the request carries one of the right primitive
  type (a string; a number for \<^verbatim>\<open>age\<close> and \<^verbatim>\<open>feesDue\<close>) and its previous value
  otherwise, and the payments of a student are what they were; when the answer is not
  200 the store is unchanged. The \<open>classTeacherClass\<close> of a teacher is not among these
  fields: the class-teacher rule sets it.
\<close>

theorem guarded_fields_patch:
  "(\<forall>d r db'. findById (students db) i = Some d \<longrightarrow> patch_students i b db = (r, db') \<longrightarrow>
      (status r \<noteq> 200 \<longrightarrow> db' = db) \<and>
      (status r = 200 \<longrightarrow>
         (\<exists>s'. r = Response 200 (Json (i, s')) \<and> findById (students db') i = Some (i, s') \<and>
            student.name s' = (case bodyField b ''name'' of JStr n \<Rightarrow> n | _ \<Rightarrow> student.name (snd d)) \<and>
            age s' = (case bodyField b ''age'' of JNum a \<Rightarrow> a | _ \<Rightarrow> age (snd d)) \<and>
            sclass s' = (case bodyField b ''class'' of JStr c \<Rightarrow> c | _ \<Rightarrow> sclass (snd d)) \<and>
            due (fees s') = (case bodyField b ''feesDue'' of JNum x \<Rightarrow> x | _ \<Rightarrow> due (fees (snd d))) \<and>
            payments (fees s') = payments (fees (snd d))))) \<and>
   (\<forall>d r db'. findById (teachers db) i = Some d \<longrightarrow> patch_teachers cs i b db = (r, db') \<longrightarrow>
      (status r \<noteq> 200 \<longrightarrow> db' = db) \<and>
      (status r = 200 \<longrightarrow>
         (\<exists>t'. r = Response 200 (Json (i, t')) \<and> findById (teachers db') i = Some (i, t') \<and>
            teacher.name t' = (case bodyField b ''name'' of JStr n \<Rightarrow> n | _ \<Rightarrow> teacher.name (snd d)) \<and>
            subject t' = (case bodyField b ''subject'' of JStr x \<Rightarrow> x | _ \<Rightarrow> subject (snd d)) \<and>
            role t' = (case bodyField b ''role'' of JStr x \<Rightarrow> x | _ \<Rightarrow> role (snd d)) \<and>
            email t' = (case bodyField b ''email'' of JStr x \<Rightarrow> x | _ \<Rightarrow> email (snd d)))))"
proof (intro conjI allI impI)
  fix d r db'
  assume d: "findById (students db) i = Some d" and p: "patch_students i b db = (r, db')"
  have s: "saveStudent i (assignStudent b (snd d)) db = (r, db')"
    using d p by (simp add: patch_students_def)
  show "db' = db" if "status r \<noteq> 200"
    using that saveStudent_cases [OF s] by auto
  show "\<exists>s'. r = Response 200 (Json (i, s')) \<and> findById (students db') i = Some (i, s') \<and>
            student.name s' = (case bodyField b ''name'' of JStr n \<Rightarrow> n | _ \<Rightarrow> student.name (snd d)) \<and>
            age s' = (case bodyField b ''age'' of JNum a \<Rightarrow> a | _ \<Rightarrow> age (snd d)) \<and>
            sclass s' = (case bodyField b ''class'' of JStr c \<Rightarrow> c | _ \<Rightarrow> sclass (snd d)) \<and>
            due (fees s') = (case bodyField b ''feesDue'' of JNum x \<Rightarrow> x | _ \<Rightarrow> due (fees (snd d))) \<and>
            payments (fees s') = payments (fees (snd d))"
    if "status r = 200"
  proof -
    have e: "r = Response 200 (Json (i, assignStudent b (snd d)))"
      "db' = db\<lparr>students := saveDoc (i, assignStudent b (snd d)) (students db)\<rparr>"
      using that saveStudent_cases [OF s] by auto
    have "findById (students db') i = Some (i, assignStudent b (snd d))"
      using e(2) d by (simp add: findById_saveDoc)
    with e(1) show ?thesis
      by (intro exI [of _ "assignStudent b (snd d)"]) (simp add: assignStudent_fields)
  qed
next
  fix d r db'
  assume d: "findById (teachers db) i = Some d" and p: "patch_teachers cs i b db = (r, db')"
  show "db' = db" if "status r \<noteq> 200"
    using that patch_teachers_cases [OF d p] by auto
  show "\<exists>t'. r = Response 200 (Json (i, t')) \<and> findById (teachers db') i = Some (i, t') \<and>
            teacher.name t' = (case bodyField b ''name'' of JStr n \<Rightarrow> n | _ \<Rightarrow> teacher.name (snd d)) \<and>
            subject t' = (case bodyField b ''subject'' of JStr x \<Rightarrow> x | _ \<Rightarrow> subject (snd d)) \<and>
            role t' = (case bodyField b ''role'' of JStr x \<Rightarrow> x | _ \<Rightarrow> role (snd d)) \<and>
            email t' = (case bodyField b ''email'' of JStr x \<Rightarrow> x | _ \<Rightarrow> email (snd d))"
    if ok: "status r = 200"
  proof -
    obtain c where e: "r = Response 200 (Json (i, (assignTeacher b (snd d))\<lparr>classTeacherClass := c\<rparr>))"
      "db' = db\<lparr>teachers := saveDoc (i, (assignTeacher b (snd d))\<lparr>classTeacherClass := c\<rparr>) (teachers db)\<rparr>"
      using ok patch_teachers_cases [OF d p] by auto
    have "findById (teachers db') i = Some (i, (assignTeacher b (snd d))\<lparr>classTeacherClass := c\<rparr>)"
      using e(2) d by (simp add: findById_saveDoc)
    with e(1) show ?thesis
      by (intro exI [of _ "(assignTeacher b (snd d))\<lparr>classTeacherClass := c\<rparr>"])
         (simp add: assignTeacher_fields)
  qed
qed

theorem guarded_fields_patch_witness:
  "patch_students 0 [''name'' \<mapsto> JStr ''Sami'', ''age'' \<mapsto> JStr ''8'', ''feesDue'' \<mapsto> JNum 10] school =
     (Response 200 (Json (0, sam\<lparr>student.name := ''Sami'', fees := \<lparr>due = 10, payments = []\<rparr>\<rparr>)),
      school\<lparr>students := [(0, sam\<lparr>student.name := ''Sami'', fees := \<lparr>due = 10, payments = []\<rparr>\<rparr>)]\<rparr>) \<and>
   patch_teachers strictCasts 2 [''email'' \<mapsto> JStr ''bob@y'', ''subject'' \<mapsto> JNum 3] school =
     (Response 200 (Json (2, bob\<lparr>email := ''bob@y''\<rparr>)),
      school\<lparr>teachers := [(1, ann), (2, bob\<lparr>email := ''bob@y''\<rparr>)]\<rparr>)"
  using guarded_fields_patch
          [of school 0 "[''name'' \<mapsto> JStr ''Sami'', ''age'' \<mapsto> JStr ''8'', ''feesDue'' \<mapsto> JNum 10]" strictCasts]
        guarded_fields_patch
          [of school 2 "[''email'' \<mapsto> JStr ''bob@y'', ''subject'' \<mapsto> JNum 3]" strictCasts]
  by (simp add: patch_students_def patch_teachers_def bodyField_def school_def findById_def
      findOne_def assignStudent_def assignTeacher_def saveStudent_def saveTeacher_def
      valid_student_def valid_teacher_def sam_def ann_def bob_def Let_def)

section \<open>Notifying the teachers\<close>

lemma attempted_sendEach:
  "attempted (sendEach send ms) = takeWhile send ms @ take 1 (dropWhile send ms)"
  by (induction ms) (simp_all add: Let_def)

lemma takeWhile_all: "list_all p xs \<Longrightarrow> takeWhile p xs @ take 1 (dropWhile p xs) = xs"
  by (induction xs) simp_all

text \<open>
  Claim C2, as stated, fails: with two teachers that have an email, a send to the
  first that rejects is the only attempt. The second teacher is never tried, since the
  one \<^verbatim>\<open>try\<close> encloses the whole loop.
\<close>

theorem failed_send_aborts_the_rest:
  "teachersWithEmail school = [(1, ann), (2, bob)] \<and>
   snd (snd (post_announcements strictCasts rejectsAnn None 0 [''text'' \<mapsto> JStr ''hi''] school)) =
     Some \<lparr>attempted =
             [\<lparr>msg_to = ''ann@x'', msg_from = ''Kingtech School <kingsson128@gmail.com>'',
               msg_subject = '' New School Announcement'', msg_text = ''hi''\<rparr>],
           console = [Sending, SendGridError]\<rparr>"
  by (simp add: post_announcements_def bodyField_def castString_def Let_def school_def
        sendAnnouncementEmailToTeachers_def teachersWithEmail_def ann_def bob_def mkMsg_def
        sender_def rejectsAnn_def)

lemma console_sendEach_eq:
  "console (sendEach send ms) =
     map (\<lambda>m. SentTo (msg_to m)) (takeWhile send ms) @ (if list_all send ms then [] else [SendGridError])"
  by (induction ms) (simp_all add: Let_def)

lemma post_announcements_created:
  assumes "post_announcements cs send env now b db = (Response 201 (Json (j, a)), db', x)"
  shows "x = Some (sendAnnouncementEmailToTeachers send env (atext a) db') \<and>
         teachers db' = teachers db \<and> atext a \<noteq> [] \<and>
         announcements db' = announcements db @ [(j, a)]"
  using assms
  by (auto simp: post_announcements_def Let_def split: if_splits option.splits)

lemma post_announcements_send:
  "fst (post_announcements cs send env now b db) = fst (post_announcements cs send' env now b db) \<and>
   fst (snd (post_announcements cs send env now b db)) =
     fst (snd (post_announcements cs send' env now b db))"
  by (auto simp: post_announcements_def Let_def split: if_splits option.splits)

text \<open>
  Claim C2, amended. Whenever an announcement is created (201), the helper is started
  on it. Its messages are one per stored teacher whose email is not empty, in store
  order, each to that teacher alone with the fixed subject and the announcement text.
  They are attempted one after the other up to and including the first send that
  fails, and the messages after it are not attempted; when no send fails, every such
  teacher gets exactly one attempt. The console gets exactly one error line when a send
  failed and none otherwise. The response and the store do not depend on what the
  sends do.
\<close>

theorem dispatch_until_first_failure:
  "(\<forall>j a db' x.
      post_announcements cs send env now b db = (Response 201 (Json (j, a)), db', x) \<longrightarrow>
      (\<exists>disp. x = Some disp \<and>
         attempted disp =
           takeWhile send
             (map (\<lambda>d. \<lparr>msg_to = email (snd d), msg_from = sender env,
                         msg_subject = '' New School Announcement'', msg_text = atext a\<rparr>)
                (filter (\<lambda>d. email (snd d) \<noteq> []) (teachers db))) @
           take 1 (dropWhile send
             (map (\<lambda>d. \<lparr>msg_to = email (snd d), msg_from = sender env,
                         msg_subject = '' New School Announcement'', msg_text = atext a\<rparr>)
                (filter (\<lambda>d. email (snd d) \<noteq> []) (teachers db)))) \<and>
         (list_all send
             (map (\<lambda>d. \<lparr>msg_to = email (snd d), msg_from = sender env,
                         msg_subject = '' New School Announcement'', msg_text = atext a\<rparr>)
                (filter (\<lambda>d. email (snd d) \<noteq> []) (teachers db))) \<longrightarrow>
          attempted disp =
             map (\<lambda>d. \<lparr>msg_to = email (snd d), msg_from = sender env,
                         msg_subject = '' New School Announcement'', msg_text = atext a\<rparr>)
                (filter (\<lambda>d. email (snd d) \<noteq> []) (teachers db))) \<and>
         length (filter (\<lambda>l. l = SendGridError) (console disp)) =
           (if list_all send
                 (map (\<lambda>d. \<lparr>msg_to = email (snd d), msg_from = sender env,
                         msg_subject = '' New School Announcement'', msg_text = atext a\<rparr>)
                    (filter (\<lambda>d. email (snd d) \<noteq> []) (teachers db)))
            then 0 else 1))) \<and>
   fst (post_announcements cs send env now b db) = fst (post_announcements cs send' env now b db) \<and>
   fst (snd (post_announcements cs send env now b db)) =
     fst (snd (post_announcements cs send' env now b db))"
proof (intro conjI allI impI)
  fix j a db' x
  assume p: "post_announcements cs send env now b db = (Response 201 (Json (j, a)), db', x)"
  let ?ms = "map (\<lambda>d. \<lparr>msg_to = email (snd d), msg_from = sender env,
                         msg_subject = '' New School Announcement'', msg_text = atext a\<rparr>)
                (filter (\<lambda>d. email (snd d) \<noteq> []) (teachers db))"
  let ?disp = "sendAnnouncementEmailToTeachers send env (atext a) db'"
  note c = post_announcements_created [OF p]
  have m: "map (mkMsg env (atext a)) (teachersWithEmail db') = ?ms"
    using c by (simp add: teachersWithEmail_def mkMsg_def)
  have e: "(length (teachersWithEmail db') = 0) = (?ms = [])"
    using c by (simp add: teachersWithEmail_def)
  have 1: "attempted ?disp = takeWhile send ?ms @ take 1 (dropWhile send ?ms)"
    unfolding sendAnnouncementEmailToTeachers_def Let_def m e
    by (simp add: attempted_sendEach)
  have 2: "list_all send ?ms \<longrightarrow> attempted ?disp = ?ms"
    using 1 takeWhile_all [of send ?ms] by simp
  have f: "filter (\<lambda>l. l = SendGridError) (map (\<lambda>m. SentTo (msg_to m)) xs) = []" for xs
    by (induction xs) simp_all
  have 3: "length (filter (\<lambda>l. l = SendGridError) (console ?disp)) =
             (if list_all send ?ms then 0 else 1)"
    unfolding sendAnnouncementEmailToTeachers_def Let_def m e
    by (simp add: console_sendEach_eq f)
  show "\<exists>disp. x = Some disp \<and>
         attempted disp = takeWhile send ?ms @ take 1 (dropWhile send ?ms) \<and>
         (list_all send ?ms \<longrightarrow> attempted disp = ?ms) \<and>
         length (filter (\<lambda>l. l = SendGridError) (console disp)) =
           (if list_all send ?ms then 0 else 1)"
    using c 1 2 3 by (intro exI [of _ ?disp]) blast
qed (simp_all add: post_announcements_send)

theorem dispatch_until_first_failure_witness:
  "post_announcements strictCasts delivers None 0 [''text'' \<mapsto> JStr ''hi''] school2 =
     (Response 201 (Json (5, \<lparr>atext = ''hi'', createdAt = 0\<rparr>)),
      school2\<lparr>announcements := [(5, \<lparr>atext = ''hi'', createdAt = 0\<rparr>)], nextId := 6\<rparr>,
      Some \<lparr>attempted =
             [\<lparr>msg_to = ''ann@x'', msg_from = ''Kingtech School <kingsson128@gmail.com>'',
               msg_subject = '' New School Announcement'', msg_text = ''hi''\<rparr>,
              \<lparr>msg_to = ''bob@x'', msg_from = ''Kingtech School <kingsson128@gmail.com>'',
               msg_subject = '' New School Announcement'', msg_text = ''hi''\<rparr>],
           console = [Sending, SentTo ''ann@x'', SentTo ''bob@x'']\<rparr>) \<and>
   teachers school2 = [(1, ann), (4, cat), (2, bob)] \<and> email cat = []"
  using dispatch_until_first_failure [of strictCasts delivers None 0 "[''text'' \<mapsto> JStr ''hi'']" school2 delivers]
  by (simp add: post_announcements_def bodyField_def castString_def Let_def school_def school2_def
      sendAnnouncementEmailToTeachers_def teachersWithEmail_def ann_def bob_def cat_def mkMsg_def
      sender_def delivers_def)

section \<open>The class-teacher rule on update, with the save\<close>

text \<open>
  Claim C4, as stated, fails: a PATCH of the class teacher of Grade 1 whose body is only
  an empty \<^verbatim>\<open>name\<close> has no role, passes the guard of line 263, and is refused by the
  validation of the save: the answer is 500 and the stored class stays "Grade 1".
\<close>

theorem patch_empty_name_not_saved:
  "findById (teachers school) 1 = Some (1, ann) \<and>
   bodyField [''name'' \<mapsto> JStr []] ''role'' = JUndefined \<and>
   patch_teachers strictCasts 1 [''name'' \<mapsto> JStr []] school = (Response 500 Failure, school) \<and>
   classTeacherClass ann = ''Grade 1''"
  by (simp add: patch_teachers_def bodyField_def school_def findById_def findOne_def
      assignTeacher_def saveTeacher_def valid_teacher_def ann_def Let_def)

text \<open>
  Claim C4, amended. For an existing teacher and a PATCH body without a string
  \<^verbatim>\<open>role\<close>: when the patched document passes the validation of the save, the answer
  is 200 and the stored teacher has the empty \<open>classTeacherClass\<close> and the role it had,
  whatever that role is (also "Class Teacher"), since the handler tests the submitted
  role and not the stored one; when it does not pass, the answer is 500 and the store
  is unchanged.
\<close>

theorem patch_without_role_clears_class:
  assumes "findById (teachers db) i = Some d"
    and "\<forall>r. bodyField b ''role'' \<noteq> JStr r"
  shows "(valid_teacher (assignTeacher b (snd d)) \<longrightarrow>
           (\<exists>t' db'.
              patch_teachers cs i b db = (Response 200 (Json (i, t')), db') \<and>
              findById (teachers db') i = Some (i, t') \<and>
              classTeacherClass t' = [] \<and> role t' = role (snd d))) \<and>
         (\<not> valid_teacher (assignTeacher b (snd d)) \<longrightarrow>
            patch_teachers cs i b db = (Response 500 Failure, db))"
proof -
  let ?t' = "(assignTeacher b (snd d))\<lparr>classTeacherClass := []\<rparr>"
  let ?db' = "db\<lparr>teachers := saveDoc (i, ?t') (teachers db)\<rparr>"
  have nr: "bodyField b ''role'' \<noteq> JStr ''Class Teacher''"
    using assms(2) by simp
  have p: "patch_teachers cs i b db = saveTeacher i ?t' db"
    using assms(1) nr by (simp add: patch_teachers_def Let_def)
  have 2: "findById (teachers ?db') i = Some (i, ?t')"
    using assms(1) by (simp add: findById_saveDoc)
  have 3: "role ?t' = role (snd d)"
    using assms(2) by (cases "bodyField b ''role''") (simp_all add: assignTeacher_fields)
  have a: "valid_teacher (assignTeacher b (snd d)) \<longrightarrow>
           (\<exists>t' db'.
              patch_teachers cs i b db = (Response 200 (Json (i, t')), db') \<and>
              findById (teachers db') i = Some (i, t') \<and>
              classTeacherClass t' = [] \<and> role t' = role (snd d))"
  proof
    assume "valid_teacher (assignTeacher b (snd d))"
    then have "patch_teachers cs i b db = (Response 200 (Json (i, ?t')), ?db')"
      using p by (simp add: saveTeacher_valid)
    then show "\<exists>t' db'.
              patch_teachers cs i b db = (Response 200 (Json (i, t')), db') \<and>
              findById (teachers db') i = Some (i, t') \<and>
              classTeacherClass t' = [] \<and> role t' = role (snd d)"
      using 2 3 by (intro exI [of _ ?t'] exI [of _ ?db']) simp
  qed
  have b: "\<not> valid_teacher (assignTeacher b (snd d)) \<longrightarrow>
            patch_teachers cs i b db = (Response 500 Failure, db)"
    using p by (simp add: saveTeacher_def)
  from a b show ?thesis ..
qed

theorem patch_without_role_clears_class_witness:
  "patch_teachers strictCasts 1 [''name'' \<mapsto> JStr ''Anna''] school =
     (Response 200 (Json (1, ann\<lparr>teacher.name := ''Anna'', classTeacherClass := []\<rparr>)),
      school\<lparr>teachers := [(1, ann\<lparr>teacher.name := ''Anna'', classTeacherClass := []\<rparr>), (2, bob)]\<rparr>)"
proof -
  let ?b = "[''name'' \<mapsto> JStr ''Anna'']"
  have 1: "findById (teachers school) 1 = Some (1, ann)"
    by (simp add: school_def findById_def findOne_def)
  have 2: "\<forall>r. bodyField ?b ''role'' \<noteq> JStr r"
    by (simp add: bodyField_def)
  show ?thesis
    using patch_without_role_clears_class [OF 1 2, of strictCasts]
    by (simp add: patch_teachers_def bodyField_def school_def findById_def findOne_def
        assignTeacher_def saveTeacher_def valid_teacher_def ann_def)
qed

text \<open>
  Claim C6, as stated, fails: re-assigning the class teacher of Grade 1 to Grade 1 with
  a body that also carries an empty \<^verbatim>\<open>email\<close> is answered 500.
\<close>

theorem reassignment_with_empty_email:
  "findById (teachers school) 1 = Some (1, ann) \<and>
   role ann = ''Class Teacher'' \<and> classTeacherClass ann = ''Grade 1'' \<and>
   patch_teachers strictCasts 1
     [''role'' \<mapsto> JStr ''Class Teacher'', ''classTeacherClass'' \<mapsto> JStr ''Grade 1'',
      ''email'' \<mapsto> JStr []] school = (Response 500 Failure, school)"
  by (simp add: patch_teachers_def bodyField_def school_def findById_def findOne_def
      assignTeacher_def saveTeacher_def valid_teacher_def ann_def bob_def classTeacherOf_def
      castString_def Let_def)

text \<open>
  Claim C6, amended. For an existing teacher and an update with the submitted role
  "Class Teacher" and a \<^verbatim>\<open>classTeacherClass\<close> that is not falsy and that the store writes
  as the string \<open>c\<close> (itself, when it is a string): if a teacher other than the one being
  updated is the class teacher of \<open>c\<close>, the answer is 400 with the conflict message naming
  such a teacher and the store is unchanged; if none is, also when the updated teacher
  holds \<open>c\<close> already, the update is answered 200 and stores the teacher as the class
  teacher of \<open>c\<close> when the patched document passes the validation of the save, and is
  answered 500 with the store unchanged when it does not.
\<close>

theorem reassignment_excludes_self:
  assumes "findById (teachers db) i = Some d"
    and "bodyField b ''role'' = JStr ''Class Teacher''"
    and "\<not> falsy (bodyField b ''classTeacherClass'')"
    and "castString cs (bodyField b ''classTeacherClass'') = Some c"
  shows "((\<exists>e \<in> set (teachers db). fst e \<noteq> i \<and> role (snd e) = ''Class Teacher'' \<and>
                classTeacherClass (snd e) = c) \<longrightarrow>
          (\<exists>e \<in> set (teachers db). fst e \<noteq> i \<and> role (snd e) = ''Class Teacher'' \<and>
                classTeacherClass (snd e) = c \<and>
             patch_teachers cs i b db =
               (Response 400 (ClassTaken (bodyField b ''classTeacherClass'') (teacher.name (snd e))), db))) \<and>
         (\<not> (\<exists>e \<in> set (teachers db). fst e \<noteq> i \<and> role (snd e) = ''Class Teacher'' \<and>
                classTeacherClass (snd e) = c) \<longrightarrow>
          (valid_teacher (assignTeacher b (snd d)) \<longrightarrow>
             (\<exists>t' db'.
                patch_teachers cs i b db = (Response 200 (Json (i, t')), db') \<and>
                findById (teachers db') i = Some (i, t') \<and>
                role t' = ''Class Teacher'' \<and> classTeacherClass t' = c)) \<and>
          (\<not> valid_teacher (assignTeacher b (snd d)) \<longrightarrow>
             patch_teachers cs i b db = (Response 500 Failure, db)))"
proof (intro conjI impI)
  assume "\<exists>e \<in> set (teachers db). fst e \<noteq> i \<and> role (snd e) = ''Class Teacher'' \<and>
                classTeacherClass (snd e) = c"
  then have "classTeacherOf (\<lambda>j. j \<noteq> i) c (teachers db) \<noteq> None"
    by (simp add: classTeacherOf_None)
  then obtain x where x: "classTeacherOf (\<lambda>j. j \<noteq> i) c (teachers db) = Some x"
    by blast
  have "patch_teachers cs i b db =
          (Response 400 (ClassTaken (bodyField b ''classTeacherClass'') (teacher.name (snd x))), db)"
    using assms x by (simp add: patch_teachers_def Let_def)
  with classTeacherOf_Some [OF x]
  show "\<exists>e \<in> set (teachers db). fst e \<noteq> i \<and> role (snd e) = ''Class Teacher'' \<and>
                classTeacherClass (snd e) = c \<and>
             patch_teachers cs i b db =
               (Response 400 (ClassTaken (bodyField b ''classTeacherClass'') (teacher.name (snd e))), db)"
    by blast
next
  let ?t' = "(assignTeacher b (snd d))\<lparr>classTeacherClass := c\<rparr>"
  let ?db' = "db\<lparr>teachers := saveDoc (i, ?t') (teachers db)\<rparr>"
  assume "\<not> (\<exists>e \<in> set (teachers db). fst e \<noteq> i \<and> role (snd e) = ''Class Teacher'' \<and>
                classTeacherClass (snd e) = c)"
  then have q: "classTeacherOf (\<lambda>j. j \<noteq> i) c (teachers db) = None"
    by (simp add: classTeacherOf_None)
  have p: "patch_teachers cs i b db = saveTeacher i ?t' db"
    using assms q by (simp add: patch_teachers_def Let_def)
  show "patch_teachers cs i b db = (Response 500 Failure, db)"
    if "\<not> valid_teacher (assignTeacher b (snd d))"
    using that p by (simp add: saveTeacher_def)
  show "\<exists>t' db'.
                patch_teachers cs i b db = (Response 200 (Json (i, t')), db') \<and>
                findById (teachers db') i = Some (i, t') \<and>
                role t' = ''Class Teacher'' \<and> classTeacherClass t' = c"
    if ok: "valid_teacher (assignTeacher b (snd d))"
  proof -
    have 1: "patch_teachers cs i b db = (Response 200 (Json (i, ?t')), ?db')"
      using p ok by (simp add: saveTeacher_valid)
    have 2: "findById (teachers ?db') i = Some (i, ?t')"
      using assms(1) by (simp add: findById_saveDoc)
    have 3: "role ?t' = ''Class Teacher''"
      using assms(2) by (simp add: assignTeacher_fields)
    show ?thesis
      using 1 2 3 by (intro exI [of _ ?t'] exI [of _ ?db']) simp
  qed
qed

theorem reassignment_excludes_self_witness:
  "patch_teachers strictCasts 1
     [''role'' \<mapsto> JStr ''Class Teacher'', ''classTeacherClass'' \<mapsto> JStr ''Grade 1''] school =
     (Response 200 (Json (1, ann)), school) \<and>
   patch_teachers strictCasts 2
     [''role'' \<mapsto> JStr ''Class Teacher'', ''classTeacherClass'' \<mapsto> JStr ''Grade 1''] school =
     (Response 400 (ClassTaken (JStr ''Grade 1'') ''Ann''), school)"
proof -
  let ?b = "[''role'' \<mapsto> JStr ''Class Teacher'', ''classTeacherClass'' \<mapsto> JStr ''Grade 1'']"
  have 1: "findById (teachers school) 1 = Some (1, ann)" "findById (teachers school) 2 = Some (2, bob)"
    by (simp_all add: school_def findById_def findOne_def)
  have 2: "bodyField ?b ''role'' = JStr ''Class Teacher''"
    "\<not> falsy (bodyField ?b ''classTeacherClass'')"
    "castString strictCasts (bodyField ?b ''classTeacherClass'') = Some ''Grade 1''"
    by (simp_all add: bodyField_def castString_def)
  show ?thesis
    using reassignment_excludes_self [OF 1(1) 2] reassignment_excludes_self [OF 1(2) 2]
    by (simp add: patch_teachers_def bodyField_def school_def findById_def findOne_def
        assignTeacher_def saveTeacher_def valid_teacher_def ann_def bob_def classTeacherOf_def
        castString_def Let_def)
qed

section \<open>Appending a payment\<close>

lemma saveStudent_valid:
  "valid_student s \<Longrightarrow>
   saveStudent i s db = (Response 200 (Json (i, s)), db\<lparr>students := saveDoc (i, s) (students db)\<rparr>)"
  by (simp add: saveStudent_def)

text \<open>
  Claim C9, as stated, fails: the amount "abc" is not falsy, and for an existing
  student a store that cannot write it to the Number path answers 500 and appends
  nothing.
\<close>

theorem payment_not_a_number:
  "findById (students school) 0 = Some (0, sam) \<and>
   \<not> falsy (JStr ''abc'') \<and> \<not> falsy (JStr ''2024-01-01'') \<and>
   post_payments strictCasts 0 [''amount'' \<mapsto> JStr ''abc'', ''date'' \<mapsto> JStr ''2024-01-01''] school =
     (Response 500 Failure, school)"
  by (simp add: post_payments_def bodyField_def school_def findById_def findOne_def
      castNumber_def castString_def strictCasts_def)

text \<open>
  Claim C9, amended. For a student that exists and a request whose amount is a number
  other than zero and whose date is a non-empty string: when the stored student passes
  the validation of the save, the answer is 200 with the updated student, whose
  payments are the previous ones followed by the one entry of the request's amount and
  date, one more than before, and whose \<open>fees.due\<close>, name, age and class are what they
  were; when it does not pass, the answer is 500 and the store is unchanged.
\<close>

theorem payment_appended:
  assumes "findById (students db) i = Some d"
    and "bodyField b ''amount'' = JNum a" and "a \<noteq> 0"
    and "bodyField b ''date'' = JStr t" and "t \<noteq> []"
  shows "(valid_student (snd d) \<longrightarrow>
           (\<exists>s' db'.
              post_payments cs i b db = (Response 200 (Json (i, s')), db') \<and>
              findById (students db') i = Some (i, s') \<and>
              payments (fees s') = payments (fees (snd d)) @ [\<lparr>amount = a, date = t\<rparr>] \<and>
              length (payments (fees s')) = Suc (length (payments (fees (snd d)))) \<and>
              due (fees s') = due (fees (snd d)) \<and>
              student.name s' = student.name (snd d) \<and> age s' = age (snd d) \<and>
              sclass s' = sclass (snd d))) \<and>
         (\<not> valid_student (snd d) \<longrightarrow> post_payments cs i b db = (Response 500 Failure, db))"
proof (intro conjI impI)
  let ?s' = "(snd d)\<lparr>fees := (fees (snd d))
               \<lparr>payments := payments (fees (snd d)) @ [\<lparr>amount = a, date = t\<rparr>]\<rparr>\<rparr>"
  let ?db' = "db\<lparr>students := saveDoc (i, ?s') (students db)\<rparr>"
  have p: "post_payments cs i b db = saveStudent i ?s' db"
    using assms by (simp add: post_payments_def castNumber_def castString_def)
  have v: "valid_student ?s' = valid_student (snd d)"
    by (simp add: valid_student_def)
  show "post_payments cs i b db = (Response 500 Failure, db)" if "\<not> valid_student (snd d)"
    using that p v by (simp add: saveStudent_def)
  show "\<exists>s' db'.
              post_payments cs i b db = (Response 200 (Json (i, s')), db') \<and>
              findById (students db') i = Some (i, s') \<and>
              payments (fees s') = payments (fees (snd d)) @ [\<lparr>amount = a, date = t\<rparr>] \<and>
              length (payments (fees s')) = Suc (length (payments (fees (snd d)))) \<and>
              due (fees s') = due (fees (snd d)) \<and>
              student.name s' = student.name (snd d) \<and> age s' = age (snd d) \<and>
              sclass s' = sclass (snd d)"
    if ok: "valid_student (snd d)"
  proof -
    have "post_payments cs i b db = (Response 200 (Json (i, ?s')), ?db')"
      using p v ok by (simp add: saveStudent_valid)
    moreover have "findById (students ?db') i = Some (i, ?s')"
      using assms(1) by (simp add: findById_saveDoc)
    ultimately show ?thesis
      by (intro exI [of _ ?s'] exI [of _ ?db']) simp
  qed
qed

theorem payment_appended_witness:
  "post_payments strictCasts 0 [''amount'' \<mapsto> JNum 100, ''date'' \<mapsto> JStr ''2024-01-01''] school =
     (Response 200
        (Json (0, sam\<lparr>fees := \<lparr>due = 50, payments = [\<lparr>amount = 100, date = ''2024-01-01''\<rparr>]\<rparr>\<rparr>)),
      school\<lparr>students :=
        [(0, sam\<lparr>fees := \<lparr>due = 50, payments = [\<lparr>amount = 100, date = ''2024-01-01''\<rparr>]\<rparr>\<rparr>)]\<rparr>)"
proof -
  let ?b = "[''amount'' \<mapsto> JNum 100, ''date'' \<mapsto> JStr ''2024-01-01'']"
  have 1: "findById (students school) 0 = Some (0, sam)"
    by (simp add: school_def findById_def findOne_def)
  have 2: "bodyField ?b ''amount'' = JNum 100" "(100::rat) \<noteq> 0"
    "bodyField ?b ''date'' = JStr ''2024-01-01''" "''2024-01-01'' \<noteq> []"
    by (simp_all add: bodyField_def)
  show ?thesis
    using payment_appended [OF 1 2, of strictCasts]
    by (simp add: post_payments_def bodyField_def school_def findById_def findOne_def
        castNumber_def castString_def saveStudent_def valid_student_def sam_def)
qed

section \<open>Deleting\<close>

lemma hexObjectId_samples:
  "hexObjectId ''000000000000000000000009'' = Some 9"
  "hexObjectId ''000000000000000000000002'' = Some 2"
  "hexObjectId ''xyz'' = None"
  by code_simp+

text \<open>
  Claim C10, as stated, fails: a delete whose \<^verbatim>\<open>:id\<close> segment is "abc", which is no
  identifier of the store, is answered 500 by the \<^verbatim>\<open>catch\<close> of lines 198 to 201 and
  305 to 308.
\<close>

theorem delete_malformed_identifier:
  "objectIdOf strictCasts ''abc'' = None \<and>
   delete_students strictCasts ''abc'' school = (Response 500 (Error ''Server error''), school) \<and>
   delete_teachers strictCasts ''abc'' school = (Response 500 (Error ''Server error''), school)"
  by (simp add: delete_students_def delete_teachers_def strictCasts_def hexObjectId_def)

text \<open>
  Claim C10, amended. A delete of a student or a teacher whose \<^verbatim>\<open>:id\<close> segment is an
  identifier of the store is answered 204 whether or not a document has the identifier;
  when none has it the store is unchanged, and when one has it the collection loses a
  document. A segment that is no identifier is answered 500 and the store is unchanged.
\<close>

theorem delete_by_identifier:
  "(\<forall>i. objectIdOf cs seg = Some i \<longrightarrow>
      status (fst (delete_students cs seg db)) = 204 \<and>
      status (fst (delete_teachers cs seg db)) = 204 \<and>
      (findById (students db) i = None \<longrightarrow> snd (delete_students cs seg db) = db) \<and>
      (findById (teachers db) i = None \<longrightarrow> snd (delete_teachers cs seg db) = db) \<and>
      (\<forall>d. findById (students db) i = Some d \<longrightarrow>
         length (students (snd (delete_students cs seg db))) < length (students db)) \<and>
      (\<forall>d. findById (teachers db) i = Some d \<longrightarrow>
         length (teachers (snd (delete_teachers cs seg db))) < length (teachers db))) \<and>
   (objectIdOf cs seg = None \<longrightarrow>
      delete_students cs seg db = (Response 500 (Error ''Server error''), db) \<and>
      delete_teachers cs seg db = (Response 500 (Error ''Server error''), db))"
proof -
  have l: "findById c i = Some d \<Longrightarrow> length (findByIdAndDelete i c) < length c" for c :: "'a collection" and i d
    by (induction c) (auto simp: findById_def findOne_def split: if_splits)
  show ?thesis
    by (auto simp: delete_students_def delete_teachers_def findByIdAndDelete_absent l)
qed

theorem delete_by_identifier_witness:
  "delete_students strictCasts ''000000000000000000000009'' school = (Response 204 NoBody, school) \<and>
   delete_teachers strictCasts ''000000000000000000000009'' school = (Response 204 NoBody, school) \<and>
   delete_teachers strictCasts ''000000000000000000000002'' school =
     (Response 204 NoBody, school\<lparr>teachers := [(1, ann)]\<rparr>) \<and>
   delete_students strictCasts ''xyz'' school = (Response 500 (Error ''Server error''), school)"
  using delete_by_identifier [of strictCasts "''000000000000000000000009''" school]
        delete_by_identifier [of strictCasts "''xyz''" school]
  by (simp add: delete_students_def delete_teachers_def strictCasts_def hexObjectId_samples
      school_def)

end
